theory Spec2Isabelle
  imports Complex_Main "HOL-Library.Word"
begin

section \<open>Root-Nyquist Kaiser filter design: an embedding of rkaiser.c\<close>

text \<open>
  The file \<^verbatim>\<open>src/filter/src/rkaiser.c\<close> designs a square-root Nyquist filter from a
  Kaiser-windowed sinc. It estimates a bandwidth correction \<^verbatim>\<open>rho_hat\<close> in closed form,
  refines it by a parabolic search over the measured inter-symbol interference, generates
  the taps once more and scales them to energy \<^verbatim>\<open>k\<close>.

  Numbers. \<^verbatim>\<open>unsigned int\<close> is a 32-bit word, so \<^verbatim>\<open>2*_k*_m+1\<close> wraps as in C. A
  \<^verbatim>\<open>float\<close> is modelled by a real number: rounding, overflow to infinity and the
  order of summation are abstracted away. The two places where the C code can leave
  the finite numbers on inputs it accepts are modelled explicitly: the logarithm of the
  estimator (\<^verbatim>\<open>logf(0)\<close> is minus infinity, where HOL has \<open>ln 0 = 0\<close>), and the
  division by the energy of the taps in the final scaling.

  Effects. \<^verbatim>\<open>fprintf(stderr, ...); exit(c)\<close> is the outcome \<open>Exit\<close> carrying the
  message (without its newline) and the status. The lines that the search prints on
  standard output (\<^verbatim>\<open>DEBUG_RKAISER\<close> is 1) are not modelled; the evaluation of the
  objective that goes with each printed line is, since it overwrites the tap buffer.

  Collaborators. \<^verbatim>\<open>fir_kaiser_window\<close> and \<^verbatim>\<open>liquid_filter_isi\<close> are declared in
  \<^verbatim>\<open>liquid.internal.h\<close> and defined elsewhere; every function that calls them takes
  them as the parameters \<open>kw\<close> and \<open>isi\<close>. They are assumed to return.
\<close>

subsection \<open>Values and outcomes\<close>

type_synonym uint = "32 word"

text \<open>A float that may have left the finite numbers.\<close>

datatype cfloat = Num real | MinusInf | PlusInf | NotANumber

text \<open>
  The outcome of a call: the process was ended by \<^verbatim>\<open>exit\<close>, or the call went on with a
  value that is not a finite number (which this development does not follow further),
  or it returned.
\<close>

datatype 'a outcome = is_Exit: Exit string nat | Non_finite | Return 'a

text \<open>\<^verbatim>\<open>logf\<close> on a finite argument.\<close>

definition logf :: "real \<Rightarrow> cfloat" where
  "logf x = (if 0 < x then Num (ln x) else if x = 0 then MinusInf else NotANumber)"

text \<open>The product and the sum of a finite float with a float.\<close>

fun fmul :: "real \<Rightarrow> cfloat \<Rightarrow> cfloat" where
  "fmul c (Num x) = Num (c * x)"
| "fmul c MinusInf = (if 0 < c then MinusInf else if c < 0 then PlusInf else NotANumber)"
| "fmul c PlusInf = (if 0 < c then PlusInf else if c < 0 then MinusInf else NotANumber)"
| "fmul c NotANumber = NotANumber"

fun fadd :: "real \<Rightarrow> cfloat \<Rightarrow> cfloat" where
  "fadd c (Num x) = Num (c + x)"
| "fadd c v = v"

text \<open>The comparisons \<^verbatim>\<open>v < c\<close> and \<^verbatim>\<open>v > c\<close>; both are false on a NaN.\<close>

fun flt :: "cfloat \<Rightarrow> real \<Rightarrow> bool" where
  "flt (Num x) c = (x < c)"
| "flt MinusInf c = True"
| "flt PlusInf c = False"
| "flt NotANumber c = False"

fun fgt :: "cfloat \<Rightarrow> real \<Rightarrow> bool" where
  "fgt (Num x) c = (x > c)"
| "fgt MinusInf c = False"
| "fgt PlusInf c = True"
| "fgt NotANumber c = False"

subsection \<open>The external collaborators\<close>

text \<open>
  \<^verbatim>\<open>fir_kaiser_window(n, fc, As, mu, h)\<close> writes \<open>n\<close> taps into \<open>h\<close>: the parameter
  returns the taps written. \<^verbatim>\<open>liquid_filter_isi(h, k, m, &mse, &max)\<close> returns the
  pair \<open>(mse, max)\<close>.
\<close>

type_synonym kaiser_window = "uint \<Rightarrow> real \<Rightarrow> real \<Rightarrow> real \<Rightarrow> real list"
type_synonym filter_isi = "real list \<Rightarrow> uint \<Rightarrow> uint \<Rightarrow> real \<times> real"

subsection \<open>rkaiser_approximate_rho (lines 129 to 170)\<close>

text \<open>
  The \<^verbatim>\<open>switch\<close> on \<open>_m\<close>. It is reached with \<open>_m \<ge> 1\<close> only, so the default branch
  has \<open>_m \<ge> 7\<close> and \<^verbatim>\<open>logf(_m)\<close> is the logarithm of a positive number.
\<close>

definition rkaiser_coeffs :: "uint \<Rightarrow> real \<times> real \<times> real" where
  "rkaiser_coeffs m =
     (if m = 1 then (0.78583556, 0.05439958, 0.37818679)
      else if m = 2 then (0.82194722, 0.06170731, 0.16362774)
      else if m = 3 then (0.84686762, 0.07475776, 0.05263769)
      else if m = 4 then (0.86538726, 0.07374587, 0.03491642)
      else if m = 5 then (0.87861007, 0.06981039, 0.03553645)
      else if m = 6 then (0.88901162, 0.06708569, 0.03459680)
      else (0.057918 * ln (real (unat m)) + 0.784313,
            (if m \<le> 3 then 0.0099427 * real (unat m) + 0.0447250
             else - 0.0026685 * real (unat m) + 0.0835030),
            0.03373 + exp (- 0.30382 * real (unat m) * real (unat m)
                           - 0.19451 * real (unat m) - 0.56171)))"

text \<open>Lines 156 to 158: \<^verbatim>\<open>if (c2 >= _beta) c2 = 0.999f*_beta;\<close>.\<close>

definition clamp_c2 :: "real \<Rightarrow> real \<Rightarrow> real" where
  "clamp_c2 c2 beta = (if c2 \<ge> beta then 0.999 * beta else c2)"

text \<open>The argument \<^verbatim>\<open>_beta - c2\<close> of the logarithm on line 160.\<close>

definition rkaiser_log_argument :: "uint \<Rightarrow> real \<Rightarrow> real" where
  "rkaiser_log_argument m beta =
     (case rkaiser_coeffs m of (c0, c1, c2) \<Rightarrow> beta - clamp_c2 c2 beta)"

text \<open>Lines 162 to 167: the clamp of the estimate.\<close>

definition clamp_rho :: "cfloat \<Rightarrow> cfloat" where
  "clamp_rho rho_hat =
     (if flt rho_hat 0 then Num 0 else if fgt rho_hat 1 then Num 1 else rho_hat)"

definition rkaiser_approximate_rho :: "uint \<Rightarrow> real \<Rightarrow> cfloat outcome" where
  "rkaiser_approximate_rho m beta =
     (if m < 1 then
        Exit ''error: rkaiser_approximate_rho(): m must be greater than 0'' 0
      else if beta < 0 \<or> beta > 1 then
        Exit ''error: rkaiser_approximate_rho(): beta must be in [0,1]'' 0
      else
        (case rkaiser_coeffs m of (c0, c1, c2) \<Rightarrow>
           Return (clamp_rho (fadd c0 (fmul c1 (logf (rkaiser_log_argument m beta)))))))"

subsection \<open>design_rkaiser_filter_internal_isi (lines 282 to 308)\<close>

text \<open>The function returns the mean squared ISI and leaves the taps in the buffer.\<close>

definition design_rkaiser_filter_internal_isi ::
  "kaiser_window \<Rightarrow> filter_isi \<Rightarrow> uint \<Rightarrow> uint \<Rightarrow> real \<Rightarrow> real \<Rightarrow> real \<Rightarrow> real \<times> real list" where
  "design_rkaiser_filter_internal_isi kw isi k m beta dt rho =
     (let n = 2 * k * m + 1;
          gamma = rho * beta;
          kf = real (unat k);
          del = gamma / kf;
          As = 14.26 * del * real (unat n) + 7.95;
          fc = (1 + beta - gamma) / kf;
          h = kw n fc As dt;
          (isi_mse, isi_max) = isi h k m
      in (isi_mse, h))"

subsection \<open>The parabolic search (lines 208 to 260)\<close>

record search =
  x0 :: real
  y0 :: real
  x2 :: real
  y2 :: real
  x_hat :: real
  buf :: "real list"

definition pmax :: nat where
  "pmax = 10"

text \<open>Numerator and denominator of the vertex of the parabola (lines 229 to 237).\<close>

definition numerator :: "real \<Rightarrow> real \<Rightarrow> real \<Rightarrow> real \<Rightarrow> real \<Rightarrow> real \<Rightarrow> real" where
  "numerator a0 b0 a1 b1 a2 b2 =
     b0 * (a1 * a1 - a2 * a2) + b1 * (a2 * a2 - a0 * a0) + b2 * (a0 * a0 - a1 * a1)"

definition denominator :: "real \<Rightarrow> real \<Rightarrow> real \<Rightarrow> real \<Rightarrow> real \<Rightarrow> real \<Rightarrow> real" where
  "denominator a0 b0 a1 b1 a2 b2 =
     b0 * (a1 - a2) + b1 * (a2 - a0) + b2 * (a0 - a1)"

text \<open>
  One round of the loop body, lines 225 to 259, for the objective \<open>f\<close> (the function
  \<open>design_rkaiser_filter_internal_isi\<close> at the filter's parameters). \<open>Inl\<close> is the
  \<^verbatim>\<open>break\<close> of line 240; the buffer then holds the taps of the centre point.
\<close>

definition search_round :: "(real \<Rightarrow> real \<times> real list) \<Rightarrow> search \<Rightarrow> search + search" where
  "search_round f s =
     (let x1 = 0.5 * (x0 s + x2 s);
          (y1, h1) = f x1;
          t0 = numerator (x0 s) (y0 s) x1 y1 (x2 s) (y2 s);
          t1 = denominator (x0 s) (y0 s) x1 y1 (x2 s) (y2 s)
      in if \<bar>t1\<bar> < 0.000000001 then Inl (s\<lparr>buf := h1\<rparr>)
         else
           (let xh = 0.5 * t0 / t1;
                s' = (if xh > x1 then s\<lparr>x0 := x1, y0 := y1\<rparr>
                      else s\<lparr>x2 := x1, y2 := y1\<rparr>);
                (yh, h2) = f xh
            in Inr (s'\<lparr>x_hat := xh, buf := h2\<rparr>)))"

text \<open>
  \<^verbatim>\<open>for (p=0; p<pmax; p++) { ... }\<close>: the result is the value of \<open>p\<close> and the state
  when the loop is left.
\<close>

function parabolic_search ::
  "(real \<Rightarrow> real \<times> real list) \<Rightarrow> nat \<Rightarrow> search \<Rightarrow> nat \<times> search" where
  "parabolic_search f p s =
     (if p < pmax then
        (case search_round f s of
           Inl s' \<Rightarrow> (p, s')
         | Inr s' \<Rightarrow> parabolic_search f (p + 1) s')
      else (p, s))"
  by pat_completeness auto
termination
  by (relation "measure (\<lambda>(f, p, s). pmax - p)") auto

text \<open>
  Lines 209 to 216 and 222: the bracket around the estimate and its two evaluations. The
  buffer holds the taps of the second one.
\<close>

definition search_init :: "(real \<Rightarrow> real \<times> real list) \<Rightarrow> real \<Rightarrow> search" where
  "search_init f rho_hat =
     (let a0 = rho_hat * 0.9;
          a2 = rho_hat * 1.1;
          (b0, h0) = f a0;
          (b2, h2) = f a2
      in \<lparr>x0 = a0, y0 = b0, x2 = a2, y2 = b2, x_hat = rho_hat, buf = h2\<rparr>)"

definition rkaiser_search ::
  "(real \<Rightarrow> real \<times> real list) \<Rightarrow> real \<Rightarrow> nat \<times> search" where
  "rkaiser_search f rho_hat = parabolic_search f 0 (search_init f rho_hat)"

text \<open>
  The denominator that a round starting in state \<open>s\<close> computes and tests on line 240.
\<close>

definition search_denominator :: "(real \<Rightarrow> real \<times> real list) \<Rightarrow> search \<Rightarrow> real" where
  "search_denominator f s =
     (let x1 = 0.5 * (x0 s + x2 s)
      in denominator (x0 s) (y0 s) x1 (fst (f x1)) (x2 s) (y2 s))"

text \<open>
  The vertex of the parabola through three points in the words of the specification:
  \<open>x_hat = 0.5 [y0(x1\<^sup>2 - x2\<^sup>2) + y1(x2\<^sup>2 - x0\<^sup>2) + y2(x0\<^sup>2 - x1\<^sup>2)] /
  [y0(x1 - x2) + y1(x2 - x0) + y2(x0 - x1)]\<close>.
\<close>

definition spec_vertex :: "real \<Rightarrow> real \<Rightarrow> real \<Rightarrow> real \<Rightarrow> real \<Rightarrow> real \<Rightarrow> real" where
  "spec_vertex a0 b0 a1 b1 a2 b2 =
     0.5 * (b0 * (a1\<^sup>2 - a2\<^sup>2) + b1 * (a2\<^sup>2 - a0\<^sup>2) + b2 * (a0\<^sup>2 - a1\<^sup>2))
         / (b0 * (a1 - a2) + b1 * (a2 - a0) + b2 * (a0 - a1))"

subsection \<open>Energy normalisation (lines 117 to 121 and 265 to 268)\<close>

text \<open>
  The two loops over \<open>i < n\<close>. With zero energy \<^verbatim>\<open>sqrtf(_k/e2)\<close> is infinite and every
  product \<^verbatim>\<open>0 * inf\<close> is a NaN.
\<close>

definition energy :: "nat \<Rightarrow> real list \<Rightarrow> real" where
  "energy n h = fold (\<lambda>i e2. e2 + h ! i * h ! i) [0..<n] 0"

definition scale_taps :: "nat \<Rightarrow> real \<Rightarrow> real list \<Rightarrow> real list" where
  "scale_taps n g h = fold (\<lambda>i h'. h'[i := h' ! i * g]) [0..<n] h"

definition normalize_taps :: "uint \<Rightarrow> uint \<Rightarrow> real list \<Rightarrow> real list outcome" where
  "normalize_taps k n h =
     (let e2 = energy (unat n) h
      in if e2 = 0 then Non_finite
         else Return (scale_taps (unat n) (sqrt (real (unat k) / e2)) h))"

subsection \<open>design_rkaiser_filter_internal (lines 183 to 272)\<close>

definition design_rkaiser_filter_internal ::
  "kaiser_window \<Rightarrow> filter_isi \<Rightarrow> uint \<Rightarrow> uint \<Rightarrow> real \<Rightarrow> real \<Rightarrow> (real list \<times> real) outcome" where
  "design_rkaiser_filter_internal kw isi k m beta dt =
     (if k < 1 then
        Exit ''error: design_rkaiser_filter_internal(): k must be greater than 0'' 1
      else if m < 1 then
        Exit ''error: design_rkaiser_filter_internal(): m must be greater than 0'' 1
      else if beta < 0 \<or> beta > 1 then
        Exit ''error: design_rkaiser_filter_internal(): beta must be in [0,1]'' 1
      else
        (let n = 2 * k * m + 1
         in case rkaiser_approximate_rho m beta of
              Exit msg c \<Rightarrow> Exit msg c
            | Non_finite \<Rightarrow> Non_finite
            | Return (Num rho_hat) \<Rightarrow>
                (let f = design_rkaiser_filter_internal_isi kw isi k m beta dt;
                     (p, s) = rkaiser_search f rho_hat;
                     (y_hat, h) = f (x_hat s)
                 in case normalize_taps k n h of
                      Exit msg c \<Rightarrow> Exit msg c
                    | Non_finite \<Rightarrow> Non_finite
                    | Return h' \<Rightarrow> Return (h', rho_hat))
            | Return _ \<Rightarrow> Non_finite))"

subsection \<open>design_rkaiser_filter (lines 48 to 72)\<close>

definition design_rkaiser_filter ::
  "kaiser_window \<Rightarrow> filter_isi \<Rightarrow> uint \<Rightarrow> uint \<Rightarrow> real \<Rightarrow> real \<Rightarrow> real list outcome" where
  "design_rkaiser_filter kw isi k m beta dt =
     (if k < 2 then
        Exit ''error: design_rkaiser_filter(), k must be at least 2'' 1
      else if m < 1 then
        Exit ''error: design_rkaiser_filter(), m must be at least 1'' 1
      else if beta \<le> 0 \<or> beta \<ge> 1 then
        Exit ''error: design_rkaiser_filter(), beta must be in (0,1)'' 1
      else if dt < - 1 \<or> dt > 1 then
        Exit ''error: design_rkaiser_filter(), dt must be in [-1,1]'' 1
      else
        (case design_rkaiser_filter_internal kw isi k m beta dt of
           Exit msg c \<Rightarrow> Exit msg c
         | Non_finite \<Rightarrow> Non_finite
         | Return (h, rho) \<Rightarrow> Return h))"

subsection \<open>design_arkaiser_filter (lines 84 to 122)\<close>

definition design_arkaiser_filter ::
  "kaiser_window \<Rightarrow> uint \<Rightarrow> uint \<Rightarrow> real \<Rightarrow> real \<Rightarrow> real list outcome" where
  "design_arkaiser_filter kw k m beta dt =
     (if k < 2 then
        Exit ''error: design_arkaiser_filter(), k must be at least 2'' 1
      else if m < 1 then
        Exit ''error: design_arkaiser_filter(), m must be at least 1'' 1
      else if beta \<le> 0 \<or> beta \<ge> 1 then
        Exit ''error: design_arkaiser_filter(), beta must be in (0,1)'' 1
      else if dt < - 1 \<or> dt > 1 then
        Exit ''error: design_arkaiser_filter(), dt must be in [-1,1]'' 1
      else
        (case rkaiser_approximate_rho m beta of
           Exit msg c \<Rightarrow> Exit msg c
         | Non_finite \<Rightarrow> Non_finite
         | Return (Num rho_hat) \<Rightarrow>
             (let gamma_hat = rho_hat * beta;
                  n = 2 * k * m + 1;
                  del = gamma_hat / real (unat k);
                  As = 14.26 * del * real (unat n) + 7.95;
                  fc = (1 + beta - gamma_hat) / real (unat k);
                  h = kw n fc As dt
              in normalize_taps k n h)
         | Return _ \<Rightarrow> Non_finite))"

subsection \<open>Collaborators for concrete runs\<close>

text \<open>
  A generator whose taps are all 1 and a measurement that is always 0; a generator
  whose taps all equal the cutoff and a measurement that is the squared distance of
  the first tap from 0.35. With \<open>k = 2\<close> and \<open>beta = 0.3\<close> the second pair makes the
  objective \<open>0.0225 (rho - 2)\<^sup>2\<close>.
\<close>

definition kw_unit :: kaiser_window where
  "kw_unit n fc As mu = replicate (unat n) 1"

definition isi_zero :: filter_isi where
  "isi_zero h k m = (0, 0)"

definition kw_cutoff :: kaiser_window where
  "kw_cutoff n fc As mu = replicate (unat n) fc"

definition isi_offset :: filter_isi where
  "isi_offset h k m = (case h of [] \<Rightarrow> (0, 0) | t # ts \<Rightarrow> ((t - 0.35)\<^sup>2, 0))"

text \<open>The estimate for \<open>m = 3\<close> and \<open>beta = 0.3\<close>, about 0.7425.\<close>

definition rho_hat_3_03 :: real where
  "rho_hat_3_03 = 0.84686762 + 0.07475776 * ln 0.24736231"

subsection \<open>The optimizer in the words of the specification\<close>

text \<open>
  Section 4.3 of the specification, on the objective \<open>g\<close> alone. A bracket is the tuple
  \<open>(x0, y0, x2, y2, x_hat)\<close>. A round takes the midpoint \<open>x1 = (x0 + x2) / 2\<close> and
  \<open>y1 = g x1\<close>; it stops the search when the magnitude of the denominator is below
  \<open>10\<^sup>-\<^sup>9\<close>; otherwise \<open>x_hat\<close> becomes the vertex, and for \<open>x_hat > x1\<close> the lower
  end \<open>(x0, y0)\<close> is replaced by \<open>(x1, y1)\<close>, else the upper end \<open>(x2, y2)\<close> is. The
  first argument is the number of rounds that are left.
\<close>

type_synonym bracket = "real \<times> real \<times> real \<times> real \<times> real"

fun spec_iterate :: "nat \<Rightarrow> (real \<Rightarrow> real) \<Rightarrow> bracket \<Rightarrow> bracket" where
  "spec_iterate 0 g b = b"
| "spec_iterate (Suc n) g (a0, b0, a2, b2, xh) =
     (let a1 = (a0 + a2) / 2;
          b1 = g a1
      in if \<bar>b0 * (a1 - a2) + b1 * (a2 - a0) + b2 * (a0 - a1)\<bar> < 0.000000001
         then (a0, b0, a2, b2, xh)
         else
           (let v = spec_vertex a0 b0 a1 b1 a2 b2
            in if v > a1 then spec_iterate n g (a1, b1, a2, b2, v)
               else spec_iterate n g (a0, b0, a1, b1, v)))"

definition spec_optimizer :: "(real \<Rightarrow> real) \<Rightarrow> real \<Rightarrow> bracket" where
  "spec_optimizer g rho_hat =
     spec_iterate 10 g (0.9 * rho_hat, g (0.9 * rho_hat), 1.1 * rho_hat, g (1.1 * rho_hat), rho_hat)"

text \<open>The bracket and the vertex of a state of the search.\<close>

definition bracket_of :: "search \<Rightarrow> bracket" where
  "bracket_of s = (x0 s, y0 s, x2 s, y2 s, x_hat s)"

subsection \<open>The ISI of a produced filter\<close>






section \<open>Auxiliary facts\<close>

subsection \<open>The normalisation loops\<close>

lemma energy_fold_aux:
  "n \<le> length h \<Longrightarrow> fold (\<lambda>i e2. e2 + h ! i * h ! i) [0..<n] a = a + (\<Sum>x\<leftarrow>take n h. x * x)"
proof (induction n arbitrary: a)
  case 0
  then show ?case by simp
next
  case (Suc n)
  then show ?case by (simp add: take_Suc_conv_app_nth add.assoc)
qed

lemma energy_sum_list: "length h = n \<Longrightarrow> energy n h = (\<Sum>x\<leftarrow>h. x * x)"
  by (simp add: energy_def energy_fold_aux)

lemma scale_fold_aux:
  "n \<le> length h \<Longrightarrow>
   fold (\<lambda>i h'. h'[i := h' ! i * g]) [0..<n] h = map (\<lambda>x. x * g) (take n h) @ drop n h"
proof (induction n)
  case 0
  then show ?case by simp
next
  case (Suc n)
  then have n: "n < length h" by simp
  have "fold (\<lambda>i h'. h'[i := h' ! i * g]) [0..<Suc n] h
        = (map (\<lambda>x. x * g) (take n h) @ drop n h)[n := (map (\<lambda>x. x * g) (take n h) @ drop n h) ! n * g]"
    using Suc by simp
  also have "\<dots> = map (\<lambda>x. x * g) (take n h) @ (drop n h)[0 := h ! n * g]"
    using n by (simp add: list_update_append nth_append)
  also have "drop n h = h ! n # drop (Suc n) h"
    using n by (simp add: Cons_nth_drop_Suc)
  finally show ?case using n by (simp add: take_Suc_conv_app_nth)
qed

lemma scale_taps_map: "length h = n \<Longrightarrow> scale_taps n g h = map (\<lambda>x. x * g) h"
  by (simp add: scale_taps_def scale_fold_aux)

lemma sum_list_squares_nonneg: "0 \<le> (\<Sum>x\<leftarrow>h. x * x :: real)"
  by (induction h) simp_all

lemma sum_list_scaled: "(\<Sum>x\<leftarrow>map (\<lambda>x. x * g) h. x * x) = g * g * (\<Sum>x\<leftarrow>h. x * x :: real)"
  by (induction h) (simp_all add: algebra_simps)

lemma sqrt_self_nonneg: "0 \<le> a \<Longrightarrow> sqrt a * sqrt a = a"
  by simp

lemma normalize_taps_energy:
  assumes len: "length h = unat n" and pos: "(\<Sum>x\<leftarrow>h. x * x) \<noteq> 0"
  shows "\<exists>h'. normalize_taps k n h = Return h' \<and> length h' = unat n \<and>
           h' = map (\<lambda>x. x * sqrt (real (unat k) / (\<Sum>x\<leftarrow>h. x * x))) h \<and>
           (\<Sum>x\<leftarrow>h'. x * x) = real (unat k)"
proof -
  define e where "e = (\<Sum>x\<leftarrow>h. x * x)"
  define g where "g = sqrt (real (unat k) / e)"
  have e: "energy (unat n) h = e" using len by (simp add: energy_sum_list e_def)
  have epos: "0 < e" using pos sum_list_squares_nonneg [of h] by (simp add: e_def)
  have "0 \<le> real (unat k)" by (rule of_nat_0_le_iff)
  then have "0 \<le> real (unat k) / e" using epos by (intro divide_nonneg_pos)
  then have gg: "g * g = real (unat k) / e"
    unfolding g_def by (rule sqrt_self_nonneg)
  have "(\<Sum>x\<leftarrow>map (\<lambda>x. x * g) h. x * x) = g * g * e"
    unfolding e_def by (rule sum_list_scaled)
  also have "\<dots> = real (unat k)" using epos by (simp only: gg) simp
  finally have en: "(\<Sum>x\<leftarrow>map (\<lambda>x. x * g) h. x * x) = real (unat k)" .
  have "normalize_taps k n h = Return (map (\<lambda>x. x * g) h)"
    using len epos e by (simp add: normalize_taps_def Let_def scale_taps_map g_def)
  then show ?thesis using en len unfolding g_def e_def by simp
qed

subsection \<open>The estimator\<close>

lemma c1_formula_nonzero: "- 0.0026685 * real n + 0.0835030 \<noteq> 0"
proof
  assume "- 0.0026685 * real n + 0.0835030 = 0"
  then have "real n * 26685 = 835030" by simp
  then have "real (n * 26685) = real 835030" by simp
  then have eq: "n * 26685 = 835030" by (simp only: of_nat_eq_iff)
  show False
  proof (cases "n \<le> 31")
    case True
    then have "n * 26685 \<le> 31 * 26685" by (rule mult_le_mono1)
    with eq show False by simp
  next
    case False
    then have "32 \<le> n" by simp
    then have "32 * 26685 \<le> n * 26685" by (rule mult_le_mono1)
    with eq show False by simp
  qed
qed

lemma coeffs_c1_nonzero: "fst (snd (rkaiser_coeffs m)) \<noteq> 0"
proof -
  have "0 \<le> real (unat m)" by (rule of_nat_0_le_iff)
  then have "0.0099427 * real (unat m) + 0.0447250 > 0"
    by (intro add_nonneg_pos mult_nonneg_nonneg) simp_all
  then show ?thesis
    using c1_formula_nonzero [of "unat m"]
    by (simp add: rkaiser_coeffs_def del: of_nat_unat)
qed

lemma coeffs_c2_pos: "0 < snd (snd (rkaiser_coeffs m))"
proof -
  have "0 < 0.03373 + exp (- 0.30382 * real (unat m) * real (unat m)
                           - 0.19451 * real (unat m) - 0.56171)"
    by (rule add_pos_pos) simp_all
  then show ?thesis
    by (simp add: rkaiser_coeffs_def del: of_nat_unat)
qed

lemma clamp_rho_range:
  "v \<noteq> NotANumber \<Longrightarrow> \<exists>r. clamp_rho v = Num r \<and> 0 \<le> r \<and> r \<le> 1"
  by (cases v) (simp_all add: clamp_rho_def)

lemma log_argument_pos: "0 < beta \<Longrightarrow> 0 < rkaiser_log_argument m beta"
  by (simp add: rkaiser_log_argument_def clamp_c2_def split: prod.splits)

lemma log_argument_nonneg: "0 \<le> beta \<Longrightarrow> 0 \<le> rkaiser_log_argument m beta"
  using coeffs_c2_pos [of m]
  by (simp add: rkaiser_log_argument_def clamp_c2_def split: prod.splits)

lemma approximate_rho_range:
  assumes "1 \<le> m" and "0 \<le> beta" and "beta \<le> 1"
  shows "\<exists>r. rkaiser_approximate_rho m beta = Return (Num r) \<and> 0 \<le> r \<and> r \<le> 1"
proof -
  obtain c0 c1 c2 where c: "rkaiser_coeffs m = (c0, c1, c2)"
    by (cases "rkaiser_coeffs m") auto
  have c1: "c1 \<noteq> 0" using coeffs_c1_nonzero [of m] c by simp
  have arg: "0 \<le> rkaiser_log_argument m beta"
    using assms(2) by (rule log_argument_nonneg)
  have "fadd c0 (fmul c1 (logf (rkaiser_log_argument m beta))) \<noteq> NotANumber"
    using arg c1 by (simp add: logf_def)
  from clamp_rho_range [OF this] obtain r where
    "clamp_rho (fadd c0 (fmul c1 (logf (rkaiser_log_argument m beta)))) = Num r" "0 \<le> r" "r \<le> 1"
    by blast
  moreover have "\<not> m < 1" using assms(1) by (rule leD)
  ultimately show ?thesis
    using assms(2,3) c by (simp add: rkaiser_approximate_rho_def del: word_less_1)
qed

subsection \<open>The search loop\<close>

declare parabolic_search.simps [simp del]

lemma search_round_cases:
  "search_round f s =
     (if \<bar>search_denominator f s\<bar> < 0.000000001
      then Inl (s\<lparr>buf := snd (f (0.5 * (x0 s + x2 s)))\<rparr>)
      else Inr ((if 0.5 * numerator (x0 s) (y0 s) (0.5 * (x0 s + x2 s)) (fst (f (0.5 * (x0 s + x2 s)))) (x2 s) (y2 s)
                      / search_denominator f s > 0.5 * (x0 s + x2 s)
                 then s\<lparr>x0 := 0.5 * (x0 s + x2 s), y0 := fst (f (0.5 * (x0 s + x2 s)))\<rparr>
                 else s\<lparr>x2 := 0.5 * (x0 s + x2 s), y2 := fst (f (0.5 * (x0 s + x2 s)))\<rparr>)
                \<lparr>x_hat := 0.5 * numerator (x0 s) (y0 s) (0.5 * (x0 s + x2 s)) (fst (f (0.5 * (x0 s + x2 s)))) (x2 s) (y2 s)
                      / search_denominator f s,
                 buf := snd (f (0.5 * numerator (x0 s) (y0 s) (0.5 * (x0 s + x2 s)) (fst (f (0.5 * (x0 s + x2 s)))) (x2 s) (y2 s)
                      / search_denominator f s))\<rparr>))"
  by (simp add: search_round_def search_denominator_def Let_def split: prod.splits)

lemma search_denominator_buf [simp]:
  "search_denominator f (s\<lparr>buf := h\<rparr>) = search_denominator f s"
  by (simp add: search_denominator_def)

lemma search_round_Inl:
  "search_round f s = Inl s' \<Longrightarrow> \<bar>search_denominator f s'\<bar> < 0.000000001"
  by (auto simp: search_round_cases split: if_splits)

lemma parabolic_search_done: "\<not> p < pmax \<Longrightarrow> parabolic_search f p s = (p, s)"
  by (subst parabolic_search.simps) simp

lemma parabolic_search_break:
  "p < pmax \<Longrightarrow> search_round f s = Inl s' \<Longrightarrow> parabolic_search f p s = (p, s')"
  by (subst parabolic_search.simps) simp

lemma parabolic_search_next:
  "p < pmax \<Longrightarrow> search_round f s = Inr s' \<Longrightarrow>
   parabolic_search f p s = parabolic_search f (p + 1) s'"
  by (subst parabolic_search.simps) simp

lemma parabolic_search_exit:
  "p \<le> pmax \<Longrightarrow>
   fst (parabolic_search f p s) \<le> pmax \<and>
   (fst (parabolic_search f p s) = pmax \<or>
    \<bar>search_denominator f (snd (parabolic_search f p s))\<bar> < 0.000000001)"
proof (induction f p s rule: parabolic_search.induct)
  case (1 f p s)
  show ?case
  proof (cases "p < pmax")
    case False
    with "1.prems" show ?thesis by (simp add: parabolic_search_done)
  next
    case True
    show ?thesis
    proof (cases "search_round f s")
      case (Inl s')
      with True search_round_Inl [OF Inl] show ?thesis
        by (simp add: parabolic_search_break)
    next
      case (Inr s')
      from True have "p + 1 \<le> pmax" by simp
      with "1.IH" [OF True Inr] True Inr show ?thesis
        by (simp add: parabolic_search_next)
    qed
  qed
qed

lemma numerator_spec: "0.5 * numerator a0 b0 a1 b1 a2 b2 / denominator a0 b0 a1 b1 a2 b2 = spec_vertex a0 b0 a1 b1 a2 b2"
  by (simp add: numerator_def denominator_def spec_vertex_def power2_eq_square)

subsection \<open>The search on a quadratic objective\<close>

lemma quadratic_numerator:
  "numerator a0 (a * (a0 - v)\<^sup>2 + b) a1 (a * (a1 - v)\<^sup>2 + b) a2 (a * (a2 - v)\<^sup>2 + b)
   = 2 * v * denominator a0 (a * (a0 - v)\<^sup>2 + b) a1 (a * (a1 - v)\<^sup>2 + b) a2 (a * (a2 - v)\<^sup>2 + b)"
  by (simp add: numerator_def denominator_def power2_eq_square algebra_simps)

lemma search_round_quadratic:
  assumes q: "\<And>x. fst (f x) = a * (x - v)\<^sup>2 + b"
    and i0: "y0 s = a * (x0 s - v)\<^sup>2 + b" and i2: "y2 s = a * (x2 s - v)\<^sup>2 + b"
    and r: "search_round f s = Inr s'"
  shows "x_hat s' = v \<and> y0 s' = a * (x0 s' - v)\<^sup>2 + b \<and> y2 s' = a * (x2 s' - v)\<^sup>2 + b"
proof -
  let ?x1 = "0.5 * (x0 s + x2 s)"
  have d: "search_denominator f s =
      denominator (x0 s) (a * (x0 s - v)\<^sup>2 + b) ?x1 (a * (?x1 - v)\<^sup>2 + b) (x2 s) (a * (x2 s - v)\<^sup>2 + b)"
    by (simp only: search_denominator_def Let_def q i0 i2)
  have nz: "search_denominator f s \<noteq> 0"
    using r by (auto simp: search_round_cases split: if_splits)
  have "0.5 * numerator (x0 s) (y0 s) ?x1 (fst (f ?x1)) (x2 s) (y2 s) / search_denominator f s = v"
    using nz by (simp only: q i0 i2 quadratic_numerator d [symmetric]) simp
  then show ?thesis
    using r q i0 i2 by (auto simp: search_round_cases split: if_splits)
qed

lemma parabolic_search_quadratic:
  "\<forall>x. fst (f x) = a * (x - v)\<^sup>2 + b \<Longrightarrow>
   y0 s = a * (x0 s - v)\<^sup>2 + b \<Longrightarrow> y2 s = a * (x2 s - v)\<^sup>2 + b \<Longrightarrow> x_hat s = v \<Longrightarrow>
   x_hat (snd (parabolic_search f p s)) = v"
proof (induction f p s rule: parabolic_search.induct)
  case (1 f p s)
  from "1.prems"(1) have q: "\<And>x. fst (f x) = a * (x - v)\<^sup>2 + b" by simp
  show ?case
  proof (cases "p < pmax")
    case False
    with "1.prems" show ?thesis by (simp add: parabolic_search_done)
  next
    case True
    show ?thesis
    proof (cases "search_round f s")
      case (Inl s')
      then have "x_hat s' = x_hat s" by (auto simp: search_round_cases split: if_splits)
      with True Inl "1.prems" show ?thesis by (simp add: parabolic_search_break)
    next
      case (Inr s')
      from search_round_quadratic [OF q "1.prems"(2,3) Inr]
      have "x_hat (snd (parabolic_search f (p + 1) s')) = v"
        using "1.IH" [OF True Inr "1.prems"(1)] by simp
      with True Inr show ?thesis by (simp add: parabolic_search_next)
    qed
  qed
qed

subsection \<open>The estimate at \<open>m = 3\<close>, \<open>beta = 0.3\<close>\<close>

lemma ln_lower: "0 < x \<Longrightarrow> 1 - 1 / x \<le> ln (x::real)"
proof -
  assume x: "0 < x"
  then have "ln (1 / x) \<le> 1 / x - 1" by (intro ln_le_minus_one) simp
  moreover have "ln (1 / x) = - ln x" using x by (simp add: ln_div)
  ultimately show ?thesis by simp
qed

lemma rho_hat_3_03_bounds: "0.6 \<le> rho_hat_3_03 \<and> rho_hat_3_03 \<le> 0.8"
proof -
  have lo: "1 - 1 / 0.24736231 \<le> ln (0.24736231::real)" by (rule ln_lower) simp
  have hi: "ln (0.24736231::real) \<le> 0.24736231 - 1" by (rule ln_le_minus_one) simp
  have "(-3.05::real) \<le> 1 - 1 / 0.24736231" by simp
  with lo have lo': "-3.05 \<le> ln (0.24736231::real)" by linarith
  from hi have hi': "ln (0.24736231::real) \<le> -0.75" by simp
  have "\<And>L::real. -3.05 \<le> L \<Longrightarrow> L \<le> -0.75 \<Longrightarrow>
          0.6 \<le> 0.84686762 + 0.07475776 * L \<and> 0.84686762 + 0.07475776 * L \<le> 0.8"
    by simp
  from this [OF lo' hi'] show ?thesis unfolding rho_hat_3_03_def .
qed

lemma approximate_rho_3_03: "rkaiser_approximate_rho 3 (3/10) = Return (Num rho_hat_3_03)"
proof -
  have arg: "rkaiser_log_argument 3 (3/10) = 0.24736231"
    by (simp add: rkaiser_log_argument_def rkaiser_coeffs_def clamp_c2_def)
  have "clamp_rho (Num rho_hat_3_03) = Num rho_hat_3_03"
    using rho_hat_3_03_bounds by (simp add: clamp_rho_def)
  then show ?thesis
    by (simp add: rkaiser_approximate_rho_def rkaiser_coeffs_def arg logf_def rho_hat_3_03_def)
qed

subsection \<open>A run with the cutoff generator\<close>

lemma internal_isi_unfold:
  "design_rkaiser_filter_internal_isi kw isi k m beta dt rho =
     (fst (isi (kw (2 * k * m + 1) ((1 + beta - rho * beta) / real (unat k))
                  (14.26 * (rho * beta / real (unat k)) * real (unat (2 * k * m + 1)) + 7.95) dt) k m),
      kw (2 * k * m + 1) ((1 + beta - rho * beta) / real (unat k))
         (14.26 * (rho * beta / real (unat k)) * real (unat (2 * k * m + 1)) + 7.95) dt)"
  by (simp only: design_rkaiser_filter_internal_isi_def Let_def case_prod_beta)

lemma isi_offset_replicate:
  "0 < n \<Longrightarrow> isi_offset (replicate n t) k m = ((t - 0.35)\<^sup>2, 0)"
  by (cases n) (simp_all add: isi_offset_def)

lemma example_objective:
  "design_rkaiser_filter_internal_isi kw_cutoff isi_offset 2 3 (3/10) 0 x
   = (0.0225 * (x - 2)\<^sup>2 + 0, replicate 13 ((1 + 3/10 - x * (3/10)) / 2))"
proof -
  have n: "unat (2 * 2 * 3 + 1 :: uint) = 13" by simp
  have k: "real (unat (2 :: uint)) = 2" by simp
  have off: "isi_offset (replicate 13 t) 2 3 = ((t - 0.35)\<^sup>2, 0)" for t
    by (rule isi_offset_replicate) simp
  have "(1 + 3/10 - x * (3/10)) / 2 - 0.35 = - 0.15 * (x - 2)" by (simp add: field_simps)
  then have "((1 + 3/10 - x * (3/10)) / 2 - 0.35)\<^sup>2 = (- 0.15 * (x - 2))\<^sup>2" by (simp only:)
  also have "\<dots> = 0.0225 * (x - 2)\<^sup>2 + 0" by (simp add: power2_eq_square algebra_simps)
  finally have sq: "((1 + 3/10 - x * (3/10)) / 2 - 0.35)\<^sup>2 = 0.0225 * (x - 2)\<^sup>2 + 0" .
  have "fst (isi_offset (replicate 13 ((1 + 3/10 - x * (3/10)) / 2)) 2 3) = 0.0225 * (x - 2)\<^sup>2 + 0"
    by (simp only: off fst_conv sq)
  then show ?thesis
    by (simp only: internal_isi_unfold kw_cutoff_def n k)
qed

lemma example_first_round:
  assumes "0.6 \<le> r"
  shows "\<not> \<bar>search_denominator (design_rkaiser_filter_internal_isi kw_cutoff isi_offset 2 3 (3/10) 0)
            (search_init (design_rkaiser_filter_internal_isi kw_cutoff isi_offset 2 3 (3/10) 0) r)\<bar> < 0.000000001"
proof -
  have d: "search_denominator (design_rkaiser_filter_internal_isi kw_cutoff isi_offset 2 3 (3/10) 0)
            (search_init (design_rkaiser_filter_internal_isi kw_cutoff isi_offset 2 3 (3/10) 0) r)
        = - 0.000045 * (r * r * r)"
    by (simp add: search_denominator_def search_init_def example_objective denominator_def Let_def
          power2_eq_square field_simps)
  have "0.6 * 0.6 \<le> r * r" using assms by (intro mult_mono) simp_all
  then have "0.6 * 0.6 * 0.6 \<le> r * r * r" using assms by (intro mult_mono) simp_all
  then show ?thesis unfolding d by simp
qed


lemma search_init_fields:
  "x0 (search_init f r) = r * 0.9" "x2 (search_init f r) = r * 1.1"
  "y0 (search_init f r) = fst (f (r * 0.9))" "y2 (search_init f r) = fst (f (r * 1.1))"
  "x_hat (search_init f r) = r" "buf (search_init f r) = snd (f (r * 1.1))"
  by (simp_all add: search_init_def Let_def split: prod.splits)

lemma example_search:
  "x_hat (snd (rkaiser_search (design_rkaiser_filter_internal_isi kw_cutoff isi_offset 2 3 (3/10) 0)
                 rho_hat_3_03)) = 2"
proof -
  define f where "f = design_rkaiser_filter_internal_isi kw_cutoff isi_offset 2 3 (3/10) 0"
  define s0 where "s0 = search_init f rho_hat_3_03"
  have q: "fst (f x) = 0.0225 * (x - 2)\<^sup>2 + 0" for x
    unfolding f_def by (simp only: example_objective fst_conv)
  have i0: "y0 s0 = 0.0225 * (x0 s0 - 2)\<^sup>2 + 0" and i2: "y2 s0 = 0.0225 * (x2 s0 - 2)\<^sup>2 + 0"
    unfolding s0_def by (simp_all only: search_init_fields q)
  have "\<not> \<bar>search_denominator f s0\<bar> < 0.000000001"
    unfolding f_def s0_def using rho_hat_3_03_bounds by (intro example_first_round) simp
  then obtain s1 where r: "search_round f s0 = Inr s1"
    by (simp add: search_round_cases)
  note inv1 = search_round_quadratic [OF q i0 i2 r]
  have "x_hat (snd (parabolic_search f (0 + 1) s1)) = 2"
  proof (rule parabolic_search_quadratic)
    show "\<forall>x. fst (f x) = 0.0225 * (x - 2)\<^sup>2 + 0" using q by blast
    show "y0 s1 = 0.0225 * (x0 s1 - 2)\<^sup>2 + 0" using inv1 by blast
    show "y2 s1 = 0.0225 * (x2 s1 - 2)\<^sup>2 + 0" using inv1 by blast
    show "x_hat s1 = 2" using inv1 by blast
  qed
  moreover have "parabolic_search f 0 s0 = parabolic_search f (0 + 1) s1"
    using r by (intro parabolic_search_next) (simp_all add: pmax_def)
  ultimately show ?thesis
    unfolding rkaiser_search_def using f_def s0_def by simp
qed

lemma internal_unfold:
  assumes "1 \<le> k" and "1 \<le> m" and "0 \<le> beta" and "beta \<le> 1"
    and "rkaiser_approximate_rho m beta = Return (Num r)"
  shows "design_rkaiser_filter_internal kw isi k m beta dt =
     (case normalize_taps k (2 * k * m + 1)
             (snd (design_rkaiser_filter_internal_isi kw isi k m beta dt
                (x_hat (snd (rkaiser_search (design_rkaiser_filter_internal_isi kw isi k m beta dt) r))))) of
        Exit msg c \<Rightarrow> Exit msg c
      | Non_finite \<Rightarrow> Non_finite
      | Return h' \<Rightarrow> Return (h', r))"
proof -
  have "\<not> k < 1" "\<not> m < 1" using assms(1,2) by (simp_all only: not_less)
  then show ?thesis
    using assms(3-)
    by (simp add: design_rkaiser_filter_internal_def Let_def case_prod_beta del: word_less_1)
qed

lemma example_internal:
  "design_rkaiser_filter_internal kw_cutoff isi_offset 2 3 (3/10) 0
   = Return (map (\<lambda>x. x * sqrt (2 / 1.5925)) (replicate 13 0.35), rho_hat_3_03)"
proof -
  have n: "unat (2 * 2 * 3 + 1 :: uint) = 13" by simp
  have h: "snd (design_rkaiser_filter_internal_isi kw_cutoff isi_offset 2 3 (3/10) 0
             (x_hat (snd (rkaiser_search (design_rkaiser_filter_internal_isi kw_cutoff isi_offset 2 3 (3/10) 0)
                 rho_hat_3_03)))) = replicate 13 0.35"
    by (simp add: example_search example_objective)
  have e: "(\<Sum>x\<leftarrow>replicate 13 (0.35::real). x * x) = 1.5925"
    by (simp add: sum_list_replicate)
  have len: "length (replicate 13 (0.35::real)) = unat (2 * 2 * 3 + 1 :: uint)" by simp
  have ne: "(\<Sum>x\<leftarrow>replicate 13 (0.35::real). x * x) \<noteq> 0" by (simp only: e) simp
  have k: "real (unat (2 :: uint)) = 2" by simp
  from normalize_taps_energy [OF len ne, of 2]
  have "normalize_taps 2 (2 * 2 * 3 + 1) (replicate 13 0.35)
        = Return (map (\<lambda>x. x * sqrt (2 / 1.5925)) (replicate 13 0.35))"
    unfolding e k by blast
  then show ?thesis
    by (simp add: internal_unfold [OF _ _ _ _ approximate_rho_3_03] h)
qed

subsection \<open>Validation and delegation\<close>

lemma approximate_rho_not_exit:
  "1 \<le> m \<Longrightarrow> 0 \<le> beta \<Longrightarrow> beta \<le> 1 \<Longrightarrow> \<not> is_Exit (rkaiser_approximate_rho m beta)"
  using approximate_rho_range [of m beta] by auto

lemma normalize_taps_not_exit: "\<not> is_Exit (normalize_taps k n h)"
  by (simp add: normalize_taps_def Let_def)

lemma is_Exit_case [simp]:
  "is_Exit (case x of Exit msg c \<Rightarrow> Exit msg c | Non_finite \<Rightarrow> Non_finite | Return v \<Rightarrow> Return (g v))
   = is_Exit x"
  by (cases x) simp_all

lemma internal_not_exit:
  assumes "1 \<le> k" and "1 \<le> m" and "0 \<le> beta" and "beta \<le> 1"
  shows "\<not> is_Exit (design_rkaiser_filter_internal kw isi k m beta dt)"
proof -
  from approximate_rho_range [OF assms(2-4)] obtain r where
    r: "rkaiser_approximate_rho m beta = Return (Num r)" by blast
  show ?thesis
    unfolding internal_unfold [OF assms r]
    by (simp add: normalize_taps_not_exit)
qed

lemma public_design_unfold:
  assumes "2 \<le> k" and "1 \<le> m" and "0 < beta" and "beta < 1" and "- 1 \<le> dt" and "dt \<le> 1"
  shows "design_rkaiser_filter kw isi k m beta dt
     = map_outcome fst (design_rkaiser_filter_internal kw isi k m beta dt)"
proof -
  have "\<not> k < 2" "\<not> m < 1" using assms(1,2) by (simp_all only: not_less)
  then show ?thesis
    using assms(3-)
    by (cases "design_rkaiser_filter_internal kw isi k m beta dt")
       (auto simp add: design_rkaiser_filter_def simp del: word_less_1)
qed

subsection \<open>The approximate design and the filter length\<close>

lemma unat_filter_length:
  "unat (2 * k * m + 1 :: uint) = (2 * unat k * unat m + 1) mod 2 ^ 32"
  by (simp add: unat_word_ariths mod_simps)

lemma arkaiser_unfold:
  assumes "2 \<le> k" and "1 \<le> m" and "0 < beta" and "beta < 1" and "- 1 \<le> dt" and "dt \<le> 1"
    and "rkaiser_approximate_rho m beta = Return (Num r)"
  shows "design_arkaiser_filter kw k m beta dt =
     normalize_taps k (2 * k * m + 1)
       (kw (2 * k * m + 1) ((1 + beta - r * beta) / real (unat k))
           (14.26 * (r * beta / real (unat k)) * real (unat (2 * k * m + 1)) + 7.95) dt)"
proof -
  have "\<not> k < 2" "\<not> m < 1" using assms(1,2) by (simp_all only: not_less)
  moreover have "\<not> (beta \<le> 0 \<or> beta \<ge> 1)" "\<not> (dt < - 1 \<or> dt > 1)"
    using assms(3-6) by simp_all
  ultimately show ?thesis
    using assms(7)
    by (simp only: design_arkaiser_filter_def Let_def if_False outcome.case cfloat.case)
qed

subsection \<open>The search against the optimizer of the specification\<close>

lemma search_round_spec:
  "search_round f s =
     (let a1 = (x0 s + x2 s) / 2; b1 = fst (f a1)
      in if \<bar>y0 s * (a1 - x2 s) + b1 * (x2 s - x0 s) + y2 s * (x0 s - a1)\<bar> < 0.000000001
         then Inl (s\<lparr>buf := snd (f a1)\<rparr>)
         else (let v = spec_vertex (x0 s) (y0 s) a1 b1 (x2 s) (y2 s)
               in Inr ((if v > a1 then s\<lparr>x0 := a1, y0 := b1\<rparr> else s\<lparr>x2 := a1, y2 := b1\<rparr>)
                       \<lparr>x_hat := v, buf := snd (f v)\<rparr>)))"
proof -
  have h: "0.5 * (x0 s + x2 s) = (x0 s + x2 s) / 2" by simp
  have v: "0.5 * numerator (x0 s) (y0 s) ((x0 s + x2 s) / 2) (fst (f ((x0 s + x2 s) / 2))) (x2 s) (y2 s)
             / search_denominator f s
           = spec_vertex (x0 s) (y0 s) ((x0 s + x2 s) / 2) (fst (f ((x0 s + x2 s) / 2))) (x2 s) (y2 s)"
    unfolding search_denominator_def Let_def h by (rule numerator_spec)
  have d: "search_denominator f s
           = y0 s * ((x0 s + x2 s) / 2 - x2 s) + fst (f ((x0 s + x2 s) / 2)) * (x2 s - x0 s)
             + y2 s * (x0 s - (x0 s + x2 s) / 2)"
    unfolding search_denominator_def Let_def h denominator_def ..
  show ?thesis
    unfolding Let_def
    by (simp only: search_round_cases h v) (simp only: d)
qed

lemma parabolic_search_spec:
  "p \<le> pmax \<Longrightarrow>
   bracket_of (snd (parabolic_search f p s))
     = spec_iterate (pmax - p) (\<lambda>x. fst (f x)) (bracket_of s)"
proof (induction f p s rule: parabolic_search.induct)
  case (1 f p s)
  show ?case
  proof (cases "p < pmax")
    case False
    with "1.prems" have "pmax - p = 0" by simp
    with False show ?thesis by (simp add: parabolic_search_done)
  next
    case True
    then have suc: "pmax - p = Suc (pmax - (p + 1))" by simp
    show ?thesis
    proof (cases "search_round f s")
      case (Inl s')
      then show ?thesis
        using True
        by (auto simp add: parabolic_search_break suc bracket_of_def search_round_spec Let_def
              split: if_splits)
    next
      case (Inr s')
      from True have "p + 1 \<le> pmax" by simp
      from "1.IH" [OF True Inr this]
      have ih: "bracket_of (snd (parabolic_search f (p + 1) s'))
          = spec_iterate (pmax - (p + 1)) (\<lambda>x. fst (f x)) (bracket_of s')" .
      show ?thesis
        using True Inr ih
        by (auto simp add: parabolic_search_next suc bracket_of_def search_round_spec Let_def
              split: if_splits)
    qed
  qed
qed

lemma rkaiser_search_spec:
  "bracket_of (snd (rkaiser_search f rho_hat)) = spec_optimizer (\<lambda>x. fst (f x)) rho_hat"
  using parabolic_search_spec [of 0 f "search_init f rho_hat"]
  by (simp add: rkaiser_search_def spec_optimizer_def pmax_def bracket_of_def search_init_fields
        mult.commute)

subsection \<open>The taps that the designs return\<close>



lemma internal_result:
  assumes v: "1 \<le> k" "1 \<le> m" "0 \<le> beta" "beta \<le> 1"
    and r: "rkaiser_approximate_rho m beta = Return (Num r)"
    and g: "g = snd (design_rkaiser_filter_internal_isi kw isi k m beta dt
                (x_hat (snd (rkaiser_search (design_rkaiser_filter_internal_isi kw isi k m beta dt) r))))"
    and len: "length g = unat (2 * k * m + 1)" and nz: "(\<Sum>x\<leftarrow>g. x * x) \<noteq> 0"
  shows "design_rkaiser_filter_internal kw isi k m beta dt
         = Return (map (\<lambda>x. x * sqrt (real (unat k) / (\<Sum>x\<leftarrow>g. x * x))) g, r)"
proof -
  from normalize_taps_energy [OF len nz, of k]
  have "normalize_taps k (2 * k * m + 1) g
        = Return (map (\<lambda>x. x * sqrt (real (unat k) / (\<Sum>x\<leftarrow>g. x * x))) g)" by blast
  then show ?thesis
    unfolding internal_unfold [OF v r] g [symmetric] by simp
qed

lemma arkaiser_result:
  assumes v: "2 \<le> k" "1 \<le> m" "0 < beta" "beta < 1" "- 1 \<le> dt" "dt \<le> 1"
    and r: "rkaiser_approximate_rho m beta = Return (Num r)"
    and g: "g = kw (2 * k * m + 1) ((1 + beta - r * beta) / real (unat k))
                  (14.26 * (r * beta / real (unat k)) * real (unat (2 * k * m + 1)) + 7.95) dt"
    and len: "length g = unat (2 * k * m + 1)" and nz: "(\<Sum>x\<leftarrow>g. x * x) \<noteq> 0"
  shows "design_arkaiser_filter kw k m beta dt
         = Return (map (\<lambda>x. x * sqrt (real (unat k) / (\<Sum>x\<leftarrow>g. x * x))) g)"
proof -
  from normalize_taps_energy [OF len nz, of k]
  have "normalize_taps k (2 * k * m + 1) g
        = Return (map (\<lambda>x. x * sqrt (real (unat k) / (\<Sum>x\<leftarrow>g. x * x))) g)" by blast
  then show ?thesis
    unfolding arkaiser_unfold [OF v r] g [symmetric] by simp
qed

lemma unit_objective:
  "design_rkaiser_filter_internal_isi kw_unit isi_zero k m beta dt x
   = (0, replicate (unat (2 * k * m + 1)) 1)"
  by (simp only: internal_isi_unfold kw_unit_def isi_zero_def fst_conv)

subsection \<open>Runs with the ratio measurements\<close>
















section \<open>The claims\<close>

text \<open>
  C1 (the code departs from the claim). The claim: the exact design returns as rho the
  result of the search, the vertex \<open>x_hat\<close> at which the returned taps are generated.
  Line 271 stores \<open>rho_hat\<close>, the estimate that seeded the search, while line 263
  generates the taps at \<open>x_hat\<close>. On the run below (\<open>k = 2\<close>, \<open>m = 3\<close>,
  \<open>beta = 0.3\<close>, \<open>dt = 0\<close>, objective \<open>0.0225 (rho - 2)\<^sup>2\<close>) the search ends at
  \<open>x_hat = 2\<close>, the taps are those of the cutoff \<open>(1 + 0.3 - 2 * 0.3) / 2 = 0.35\<close>, and
  the rho that is returned is the estimate, which is below 2.
\<close>

theorem C1_returned_rho_is_the_estimate:
  "design_rkaiser_filter_internal kw_cutoff isi_offset 2 3 (3/10) 0
     = Return (map (\<lambda>x. x * sqrt (2 / 1.5925)) (replicate 13 0.35), rho_hat_3_03) \<and>
   rkaiser_approximate_rho 3 (3/10) = Return (Num rho_hat_3_03) \<and>
   x_hat (snd (rkaiser_search (design_rkaiser_filter_internal_isi kw_cutoff isi_offset 2 3 (3/10) 0)
                 rho_hat_3_03)) = 2 \<and>
   rho_hat_3_03 < 2"
  using example_internal approximate_rho_3_03 example_search rho_hat_3_03_bounds by simp

text \<open>
  C2, as stated: on an invalid input every entry point returns a structured error to
  its caller and never ends the process. Each check of the source prints a message and
  calls \<^verbatim>\<open>exit\<close>; with \<open>k = 1\<close> the public exact design ends the process with
  status 1.
\<close>

theorem C2_exit_counterexample:
  "(1::uint) < 2 \<and>
   design_rkaiser_filter kw_unit isi_zero 1 3 (3/10) 0
     = Exit ''error: design_rkaiser_filter(), k must be at least 2'' 1 \<and>
   is_Exit (design_rkaiser_filter kw_unit isi_zero 1 3 (3/10) 0)"
  by (simp add: design_rkaiser_filter_def)

text \<open>
  C2, amended: on an input that fails its checks, each entry point prints an error
  message and ends the process through \<^verbatim>\<open>exit\<close>. The two public designs do so with
  status 1 for \<open>k < 2\<close>, \<open>m < 1\<close>, \<open>beta\<close> outside the open interval (0,1) or \<open>dt\<close>
  outside [-1,1]; the internal design with status 1 for \<open>k < 1\<close>, \<open>m < 1\<close> or \<open>beta\<close>
  outside [0,1]; the estimator with status 0 for \<open>m < 1\<close> or \<open>beta\<close> outside [0,1].
\<close>

theorem C2_invalid_input_exits:
  "(k < 2 \<or> m < 1 \<or> beta \<le> 0 \<or> beta \<ge> 1 \<or> dt < - 1 \<or> dt > 1 \<longrightarrow>
      (\<exists>msg. design_rkaiser_filter kw isi k m beta dt = Exit msg 1) \<and>
      (\<exists>msg. design_arkaiser_filter kw k m beta dt = Exit msg 1)) \<and>
   (k < 1 \<or> m < 1 \<or> beta < 0 \<or> beta > 1 \<longrightarrow>
      (\<exists>msg. design_rkaiser_filter_internal kw isi k m beta dt = Exit msg 1)) \<and>
   (m < 1 \<or> beta < 0 \<or> beta > 1 \<longrightarrow>
      (\<exists>msg. rkaiser_approximate_rho m beta = Exit msg 0))"
  by (auto simp add: design_rkaiser_filter_def design_arkaiser_filter_def
        design_rkaiser_filter_internal_def rkaiser_approximate_rho_def simp del: word_less_1)

text \<open>C2, amended, at \<open>k = 0\<close>, \<open>m = 0\<close>, \<open>beta = 2\<close>, \<open>dt = 2\<close>, which fails every check.\<close>

theorem C2_invalid_input_exits_witness:
  "((0::uint) < 2 \<or> (0::uint) < 1 \<or> (2::real) \<le> 0 \<or> (2::real) \<ge> 1 \<or> (2::real) < - 1 \<or> (2::real) > 1) \<and>
   (\<exists>msg. design_rkaiser_filter kw_unit isi_zero 0 0 2 2 = Exit msg 1) \<and>
   (\<exists>msg. design_arkaiser_filter kw_unit 0 0 2 2 = Exit msg 1) \<and>
   ((0::uint) < 1 \<or> (0::uint) < 1 \<or> (2::real) < 0 \<or> (2::real) > 1) \<and>
   (\<exists>msg. design_rkaiser_filter_internal kw_unit isi_zero 0 0 2 2 = Exit msg 1) \<and>
   ((0::uint) < 1 \<or> (2::real) < 0 \<or> (2::real) > 1) \<and>
   (\<exists>msg. rkaiser_approximate_rho 0 2 = Exit msg 0)"
  using C2_invalid_input_exits [of 0 0 2 2 kw_unit isi_zero] by simp

text \<open>
  C3, as stated: rho and rho_hat are always clamped to [0,1], in particular the rho at
  which the final taps are regenerated lies in [0,1]. Only the estimate is clamped
  (lines 162 to 167); the vertex of the search is used as computed. On the run of C1
  the final taps are generated at \<open>x_hat = 2\<close>.
\<close>

theorem C3_final_rho_outside_unit_interval:
  "rkaiser_approximate_rho 3 (3/10) = Return (Num rho_hat_3_03) \<and>
   \<not> (0 \<le> x_hat (snd (rkaiser_search
              (design_rkaiser_filter_internal_isi kw_cutoff isi_offset 2 3 (3/10) 0) rho_hat_3_03)) \<and>
        x_hat (snd (rkaiser_search
              (design_rkaiser_filter_internal_isi kw_cutoff isi_offset 2 3 (3/10) 0) rho_hat_3_03)) \<le> 1)"
  by (simp add: example_search approximate_rho_3_03)

text \<open>
  C3, amended: for \<open>m \<ge> 1\<close> and \<open>beta\<close> in [0,1] the estimate \<open>rho_hat\<close> that
  \<open>rkaiser_approximate_rho\<close> returns is a finite number in [0,1], so the bracket that
  seeds the search has \<open>x0 = 0.9 rho_hat \<ge> 0\<close> and \<open>x2 = 1.1 rho_hat \<le> 1.1\<close>. Nothing
  is said of the vertex \<open>x_hat\<close>, which is not clamped.
\<close>

theorem C3_estimate_in_unit_interval:
  "1 \<le> m \<Longrightarrow> 0 \<le> beta \<Longrightarrow> beta \<le> 1 \<Longrightarrow>
   \<exists>r. rkaiser_approximate_rho m beta = Return (Num r) \<and> 0 \<le> r \<and> r \<le> 1 \<and>
       x0 (search_init f r) = 0.9 * r \<and> x2 (search_init f r) = 1.1 * r \<and>
       0 \<le> x0 (search_init f r) \<and> x2 (search_init f r) \<le> 1.1"
proof -
  assume "1 \<le> m" "0 \<le> beta" "beta \<le> 1"
  from approximate_rho_range [OF this] obtain r where
    "rkaiser_approximate_rho m beta = Return (Num r)" "0 \<le> r" "r \<le> 1" by blast
  then show ?thesis by (auto simp: search_init_fields)
qed

text \<open>C3, amended, at \<open>m = 3\<close>, \<open>beta = 0.3\<close> and a constant objective.\<close>

theorem C3_estimate_in_unit_interval_witness:
  "(1::uint) \<le> 3 \<and> (0::real) \<le> 3/10 \<and> (3/10::real) \<le> 1 \<and>
   (\<exists>r. rkaiser_approximate_rho 3 (3/10) = Return (Num r) \<and> 0 \<le> r \<and> r \<le> 1 \<and>
       x0 (search_init (\<lambda>x. (0, [])) r) = 0.9 * r \<and> x2 (search_init (\<lambda>x. (0, [])) r) = 1.1 * r \<and>
       0 \<le> x0 (search_init (\<lambda>x. (0, [])) r) \<and> x2 (search_init (\<lambda>x. (0, [])) r) \<le> 1.1)"
  using C3_estimate_in_unit_interval [of 3 "3/10" "\<lambda>x. (0, [])"] by simp

text \<open>
  C4, as stated: on every valid input the returned tap vector has length \<open>2 k m + 1\<close> and
  energy \<open>k\<close>, on the exact and on the approximate path. The length is computed in
  \<^verbatim>\<open>unsigned int\<close> (lines 109, 203 and 289) and wraps: for \<open>k = 2\<^sup>3\<^sup>1\<close> and \<open>m = 3\<close>,
  which every check accepts, \<open>2 k m + 1 = 12884901889\<close> and each design generates and
  scales one tap.
\<close>

theorem C4_length_wraps_counterexample:
  "design_rkaiser_filter_internal kw_unit isi_zero 2147483648 3 (3/10) 0
     = Return ([sqrt 2147483648], rho_hat_3_03) \<and>
   design_rkaiser_filter kw_unit isi_zero 2147483648 3 (3/10) 0 = Return [sqrt 2147483648] \<and>
   design_arkaiser_filter kw_unit 2147483648 3 (3/10) 0 = Return [sqrt 2147483648] \<and>
   2 * unat (2147483648 :: uint) * unat (3 :: uint) + 1 = 12884901889"
proof -
  have k: "real (unat (2147483648 :: uint)) = 2147483648" by simp
  have one: "unat (2 * 2147483648 * 3 + 1 :: uint) = 1" by simp
  have g: "[1::real] = snd (design_rkaiser_filter_internal_isi kw_unit isi_zero 2147483648 3 (3/10) 0
                (x_hat (snd (rkaiser_search
                   (design_rkaiser_filter_internal_isi kw_unit isi_zero 2147483648 3 (3/10) 0) rho_hat_3_03))))"
    by (simp only: unit_objective snd_conv one) simp
  have i: "design_rkaiser_filter_internal kw_unit isi_zero 2147483648 3 (3/10) 0
     = Return ([sqrt 2147483648], rho_hat_3_03)"
    using internal_result [OF _ _ _ _ approximate_rho_3_03 g] by simp
  have ga: "[1::real] = kw_unit (2 * 2147483648 * 3 + 1) ((1 + 3/10 - rho_hat_3_03 * (3/10)) / real (unat (2147483648 :: uint)))
                  (14.26 * (rho_hat_3_03 * (3/10) / real (unat (2147483648 :: uint))) * real (unat (2 * 2147483648 * 3 + 1 :: uint)) + 7.95) 0"
    by (simp only: kw_unit_def one) simp
  have a: "design_arkaiser_filter kw_unit 2147483648 3 (3/10) 0 = Return [sqrt 2147483648]"
    using arkaiser_result [where kw = kw_unit, OF _ _ _ _ _ _ approximate_rho_3_03 ga] by simp
  have p: "design_rkaiser_filter kw_unit isi_zero 2147483648 3 (3/10) 0 = Return [sqrt 2147483648]"
    using public_design_unfold [of 2147483648 3 "3/10" 0 kw_unit isi_zero] i by simp
  show ?thesis using i a p by simp
qed

text \<open>
  C4, amended: on every valid input each design returns the \<open>n\<close> taps that the
  generator wrote for the final parameters (the exact design at the \<open>x_hat\<close> of the
  search, the approximate design at the estimate), every tap scaled by
  \<open>sqrt (k / e2)\<close> with \<open>e2\<close> the sum of their squares, so that the sum of the squares
  of the returned taps is \<open>k\<close>. Here \<open>n\<close> is the 32-bit value of \<^verbatim>\<open>2*_k*_m+1\<close>, that
  is \<open>(2 k m + 1) mod 2\<^sup>3\<^sup>2\<close>. The generator is assumed to write \<open>n\<close> taps that are
  not all zero; arithmetic is exact.
\<close>

theorem C4_taps_scaled_to_energy_k:
  assumes len: "\<And>fc As. length (kw (2 * k * m + 1) fc As dt) = unat (2 * k * m + 1)"
    and nz: "\<And>fc As. (\<Sum>x\<leftarrow>kw (2 * k * m + 1) fc As dt. x * x) \<noteq> 0"
  shows "(1 \<le> k \<and> 1 \<le> m \<and> 0 \<le> beta \<and> beta \<le> 1 \<longrightarrow>
            (\<exists>r g h.
               rkaiser_approximate_rho m beta = Return (Num r) \<and>
               g = snd (design_rkaiser_filter_internal_isi kw isi k m beta dt
                     (x_hat (snd (rkaiser_search (design_rkaiser_filter_internal_isi kw isi k m beta dt) r)))) \<and>
               h = map (\<lambda>x. x * sqrt (real (unat k) / (\<Sum>x\<leftarrow>g. x * x))) g \<and>
               (\<exists>rho. design_rkaiser_filter_internal kw isi k m beta dt = Return (h, rho)) \<and>
               length h = (2 * unat k * unat m + 1) mod 2 ^ 32 \<and>
               (\<Sum>x\<leftarrow>h. x * x) = real (unat k))) \<and>
         (2 \<le> k \<and> 1 \<le> m \<and> 0 < beta \<and> beta < 1 \<and> - 1 \<le> dt \<and> dt \<le> 1 \<longrightarrow>
            (\<exists>r g h.
               rkaiser_approximate_rho m beta = Return (Num r) \<and>
               g = snd (design_rkaiser_filter_internal_isi kw isi k m beta dt
                     (x_hat (snd (rkaiser_search (design_rkaiser_filter_internal_isi kw isi k m beta dt) r)))) \<and>
               h = map (\<lambda>x. x * sqrt (real (unat k) / (\<Sum>x\<leftarrow>g. x * x))) g \<and>
               design_rkaiser_filter kw isi k m beta dt = Return h \<and>
               length h = (2 * unat k * unat m + 1) mod 2 ^ 32 \<and>
               (\<Sum>x\<leftarrow>h. x * x) = real (unat k)) \<and>
            (\<exists>r g h.
               rkaiser_approximate_rho m beta = Return (Num r) \<and>
               g = kw (2 * k * m + 1) ((1 + beta - r * beta) / real (unat k))
                     (14.26 * (r * beta / real (unat k)) * real (unat (2 * k * m + 1)) + 7.95) dt \<and>
               h = map (\<lambda>x. x * sqrt (real (unat k) / (\<Sum>x\<leftarrow>g. x * x))) g \<and>
               design_arkaiser_filter kw k m beta dt = Return h \<and>
               length h = (2 * unat k * unat m + 1) mod 2 ^ 32 \<and>
               (\<Sum>x\<leftarrow>h. x * x) = real (unat k)))"
proof -
  have scaled: "length (map (\<lambda>x. x * sqrt (real (unat k) / (\<Sum>x\<leftarrow>g. x * x))) g)
                  = (2 * unat k * unat m + 1) mod 2 ^ 32 \<and>
                (\<Sum>x\<leftarrow>map (\<lambda>x. x * sqrt (real (unat k) / (\<Sum>x\<leftarrow>g. x * x))) g. x * x) = real (unat k)"
    if "length g = unat (2 * k * m + 1)" and "(\<Sum>x\<leftarrow>g. x * x) \<noteq> 0" for g
    using normalize_taps_energy [OF that, of k] unfolding unat_filter_length by auto
  have internal: "\<exists>r g h.
               rkaiser_approximate_rho m beta = Return (Num r) \<and>
               g = snd (design_rkaiser_filter_internal_isi kw isi k m beta dt
                     (x_hat (snd (rkaiser_search (design_rkaiser_filter_internal_isi kw isi k m beta dt) r)))) \<and>
               h = map (\<lambda>x. x * sqrt (real (unat k) / (\<Sum>x\<leftarrow>g. x * x))) g \<and>
               design_rkaiser_filter_internal kw isi k m beta dt = Return (h, r) \<and>
               length h = (2 * unat k * unat m + 1) mod 2 ^ 32 \<and>
               (\<Sum>x\<leftarrow>h. x * x) = real (unat k)"
    if v: "1 \<le> k" "1 \<le> m" "0 \<le> beta" "beta \<le> 1"
  proof -
    from approximate_rho_range [OF v(2-4)] obtain r where
      r: "rkaiser_approximate_rho m beta = Return (Num r)" by blast
    define g where "g = snd (design_rkaiser_filter_internal_isi kw isi k m beta dt
        (x_hat (snd (rkaiser_search (design_rkaiser_filter_internal_isi kw isi k m beta dt) r))))"
    have lg: "length g = unat (2 * k * m + 1)" and ng: "(\<Sum>x\<leftarrow>g. x * x) \<noteq> 0"
      unfolding g_def internal_isi_unfold snd_conv by (rule len, rule nz)
    from internal_result [OF v r g_def lg ng] scaled [OF lg ng] r show ?thesis
      unfolding g_def by blast
  qed
  have approx: "\<exists>r g h.
               rkaiser_approximate_rho m beta = Return (Num r) \<and>
               g = kw (2 * k * m + 1) ((1 + beta - r * beta) / real (unat k))
                     (14.26 * (r * beta / real (unat k)) * real (unat (2 * k * m + 1)) + 7.95) dt \<and>
               h = map (\<lambda>x. x * sqrt (real (unat k) / (\<Sum>x\<leftarrow>g. x * x))) g \<and>
               design_arkaiser_filter kw k m beta dt = Return h \<and>
               length h = (2 * unat k * unat m + 1) mod 2 ^ 32 \<and>
               (\<Sum>x\<leftarrow>h. x * x) = real (unat k)"
    if v: "2 \<le> k" "1 \<le> m" "0 < beta" "beta < 1" "- 1 \<le> dt" "dt \<le> 1"
  proof -
    from v(3,4) have b: "0 \<le> beta" "beta \<le> 1" by simp_all
    from approximate_rho_range [OF v(2) b] obtain r where
      r: "rkaiser_approximate_rho m beta = Return (Num r)" by blast
    define g where "g = kw (2 * k * m + 1) ((1 + beta - r * beta) / real (unat k))
                     (14.26 * (r * beta / real (unat k)) * real (unat (2 * k * m + 1)) + 7.95) dt"
    have lg: "length g = unat (2 * k * m + 1)" and ng: "(\<Sum>x\<leftarrow>g. x * x) \<noteq> 0"
      unfolding g_def by (rule len, rule nz)
    from arkaiser_result [where kw = kw, OF v r g_def lg ng] scaled [OF lg ng] r show ?thesis
      unfolding g_def by blast
  qed
  have public: "\<exists>r g h.
               rkaiser_approximate_rho m beta = Return (Num r) \<and>
               g = snd (design_rkaiser_filter_internal_isi kw isi k m beta dt
                     (x_hat (snd (rkaiser_search (design_rkaiser_filter_internal_isi kw isi k m beta dt) r)))) \<and>
               h = map (\<lambda>x. x * sqrt (real (unat k) / (\<Sum>x\<leftarrow>g. x * x))) g \<and>
               design_rkaiser_filter kw isi k m beta dt = Return h \<and>
               length h = (2 * unat k * unat m + 1) mod 2 ^ 32 \<and>
               (\<Sum>x\<leftarrow>h. x * x) = real (unat k)"
    if v: "2 \<le> k" "1 \<le> m" "0 < beta" "beta < 1" "- 1 \<le> dt" "dt \<le> 1"
  proof -
    have "1 \<le> k" using v(1) by (rule order_trans [rotated]) simp
    from internal [OF this v(2)] v(3,4) obtain r g h where
      "rkaiser_approximate_rho m beta = Return (Num r)"
      "g = snd (design_rkaiser_filter_internal_isi kw isi k m beta dt
                     (x_hat (snd (rkaiser_search (design_rkaiser_filter_internal_isi kw isi k m beta dt) r))))"
      "h = map (\<lambda>x. x * sqrt (real (unat k) / (\<Sum>x\<leftarrow>g. x * x))) g"
      "design_rkaiser_filter_internal kw isi k m beta dt = Return (h, r)"
      "length h = (2 * unat k * unat m + 1) mod 2 ^ 32" "(\<Sum>x\<leftarrow>h. x * x) = real (unat k)"
      by auto
    moreover from this(4) have "design_rkaiser_filter kw isi k m beta dt = Return h"
      unfolding public_design_unfold [OF v] by simp
    ultimately show ?thesis by blast
  qed
  show ?thesis using internal public approx by blast
qed

text \<open>
  C4, amended, at \<open>k = 2\<close>, \<open>m = 3\<close>, \<open>beta = 0.3\<close>, \<open>dt = 0\<close> with the generator of
  unit taps: 13 taps of energy 2 on each path.
\<close>

theorem C4_taps_scaled_to_energy_k_witness:
  "(\<forall>fc As. length (kw_unit (2 * 2 * 3 + 1) fc As 0) = unat (2 * 2 * 3 + 1 :: uint)) \<and>
   (\<forall>fc As. (\<Sum>x\<leftarrow>kw_unit (2 * 2 * 3 + 1) fc As 0. x * x) \<noteq> (0::real)) \<and>
   (1::uint) \<le> 2 \<and> (2::uint) \<le> 2 \<and> (1::uint) \<le> 3 \<and>
   (0::real) < 3/10 \<and> (3/10::real) < 1 \<and> - 1 \<le> (0::real) \<and> (0::real) \<le> 1 \<and>
   (\<exists>h rho. design_rkaiser_filter_internal kw_unit isi_zero 2 3 (3/10) 0 = Return (h, rho) \<and>
      length h = 13 \<and> (\<Sum>x\<leftarrow>h. x * x) = 2) \<and>
   (\<exists>h. design_rkaiser_filter kw_unit isi_zero 2 3 (3/10) 0 = Return h \<and>
      length h = 13 \<and> (\<Sum>x\<leftarrow>h. x * x) = 2) \<and>
   (\<exists>h. design_arkaiser_filter kw_unit 2 3 (3/10) 0 = Return h \<and>
      length h = 13 \<and> (\<Sum>x\<leftarrow>h. x * x) = 2)"
proof -
  have len: "\<And>fc As. length (kw_unit (2 * 2 * 3 + 1) fc As 0) = unat (2 * 2 * 3 + 1 :: uint)"
    by (simp add: kw_unit_def)
  have nz: "\<And>fc As. (\<Sum>x\<leftarrow>kw_unit (2 * 2 * 3 + 1) fc As 0. x * x) \<noteq> (0::real)"
    by (simp add: kw_unit_def sum_list_replicate)
  have v: "(1::uint) \<le> 2 \<and> (1::uint) \<le> 3 \<and> (0::real) \<le> 3/10 \<and> (3/10::real) \<le> 1"
    "(2::uint) \<le> 2 \<and> (1::uint) \<le> 3 \<and> (0::real) < 3/10 \<and> (3/10::real) < 1 \<and> - 1 \<le> (0::real) \<and> (0::real) \<le> 1"
    by simp_all
  note t = C4_taps_scaled_to_energy_k [where kw = kw_unit and isi = isi_zero and k = 2 and m = 3
      and beta = "3/10" and dt = 0, OF len nz]
  have n: "(2 * unat (2 :: uint) * unat (3 :: uint) + 1) mod 2 ^ 32 = 13" by simp
  have k: "real (unat (2 :: uint)) = 2" by simp
  from t have t1: "\<exists>r g h.
               rkaiser_approximate_rho 3 (3/10) = Return (Num r) \<and>
               g = snd (design_rkaiser_filter_internal_isi kw_unit isi_zero 2 3 (3/10) 0
                     (x_hat (snd (rkaiser_search (design_rkaiser_filter_internal_isi kw_unit isi_zero 2 3 (3/10) 0) r)))) \<and>
               h = map (\<lambda>x. x * sqrt (real (unat (2 :: uint)) / (\<Sum>x\<leftarrow>g. x * x))) g \<and>
               (\<exists>rho. design_rkaiser_filter_internal kw_unit isi_zero 2 3 (3/10) 0 = Return (h, rho)) \<and>
               length h = (2 * unat (2 :: uint) * unat (3 :: uint) + 1) mod 2 ^ 32 \<and>
               (\<Sum>x\<leftarrow>h. x * x) = real (unat (2 :: uint))"
    using v(1) by (rule conjunct1 [THEN mp])
  from t have t2: "(\<exists>r g h.
               rkaiser_approximate_rho 3 (3/10) = Return (Num r) \<and>
               g = snd (design_rkaiser_filter_internal_isi kw_unit isi_zero 2 3 (3/10) 0
                     (x_hat (snd (rkaiser_search (design_rkaiser_filter_internal_isi kw_unit isi_zero 2 3 (3/10) 0) r)))) \<and>
               h = map (\<lambda>x. x * sqrt (real (unat (2 :: uint)) / (\<Sum>x\<leftarrow>g. x * x))) g \<and>
               design_rkaiser_filter kw_unit isi_zero 2 3 (3/10) 0 = Return h \<and>
               length h = (2 * unat (2 :: uint) * unat (3 :: uint) + 1) mod 2 ^ 32 \<and>
               (\<Sum>x\<leftarrow>h. x * x) = real (unat (2 :: uint))) \<and>
            (\<exists>r g h.
               rkaiser_approximate_rho 3 (3/10) = Return (Num r) \<and>
               g = kw_unit (2 * 2 * 3 + 1) ((1 + 3/10 - r * (3/10)) / real (unat (2 :: uint)))
                     (14.26 * (r * (3/10) / real (unat (2 :: uint))) * real (unat (2 * 2 * 3 + 1 :: uint)) + 7.95) 0 \<and>
               h = map (\<lambda>x. x * sqrt (real (unat (2 :: uint)) / (\<Sum>x\<leftarrow>g. x * x))) g \<and>
               design_arkaiser_filter kw_unit 2 3 (3/10) 0 = Return h \<and>
               length h = (2 * unat (2 :: uint) * unat (3 :: uint) + 1) mod 2 ^ 32 \<and>
               (\<Sum>x\<leftarrow>h. x * x) = real (unat (2 :: uint)))"
    using v(2) by (rule conjunct2 [THEN mp])
  from t1 obtain h1 rho where
    "design_rkaiser_filter_internal kw_unit isi_zero 2 3 (3/10) 0 = Return (h1, rho)"
    "length h1 = (2 * unat (2 :: uint) * unat (3 :: uint) + 1) mod 2 ^ 32"
    "(\<Sum>x\<leftarrow>h1. x * x) = real (unat (2 :: uint))" by blast
  then have "\<exists>h rho. design_rkaiser_filter_internal kw_unit isi_zero 2 3 (3/10) 0 = Return (h, rho) \<and>
      length h = 13 \<and> (\<Sum>x\<leftarrow>h. x * x) = 2"
    unfolding n k by blast
  moreover from t2 [THEN conjunct1] obtain h2 where
    "design_rkaiser_filter kw_unit isi_zero 2 3 (3/10) 0 = Return h2"
    "length h2 = (2 * unat (2 :: uint) * unat (3 :: uint) + 1) mod 2 ^ 32"
    "(\<Sum>x\<leftarrow>h2. x * x) = real (unat (2 :: uint))" by blast
  then have "\<exists>h. design_rkaiser_filter kw_unit isi_zero 2 3 (3/10) 0 = Return h \<and>
      length h = 13 \<and> (\<Sum>x\<leftarrow>h. x * x) = 2"
    unfolding n k by blast
  moreover from t2 [THEN conjunct2] obtain h3 where
    "design_arkaiser_filter kw_unit 2 3 (3/10) 0 = Return h3"
    "length h3 = (2 * unat (2 :: uint) * unat (3 :: uint) + 1) mod 2 ^ 32"
    "(\<Sum>x\<leftarrow>h3. x * x) = real (unat (2 :: uint))" by blast
  then have "\<exists>h. design_arkaiser_filter kw_unit 2 3 (3/10) 0 = Return h \<and>
      length h = 13 \<and> (\<Sum>x\<leftarrow>h. x * x) = 2"
    unfolding n k by blast
  ultimately show ?thesis using len nz by simp
qed

text \<open>
  C5: the search loop stops after at most 10 rounds, and it stops earlier only by the
  \<^verbatim>\<open>break\<close> on a denominator of magnitude below \<open>10\<^sup>-\<^sup>9\<close>: the loop is a total
  function, the counter \<open>p\<close> is at most 10 when it is left, and when it is left with
  \<open>p\<close> other than 10 the denominator of the round that was entered is below the threshold.
  With \<open>p = 10\<close> no further round is entered. No width of the bracket and no change of
  the objective enters.
\<close>

theorem C5_search_stops_by_budget_or_break:
  "fst (rkaiser_search f rho_hat) \<le> 10 \<and>
   (fst (rkaiser_search f rho_hat) = 10 \<or>
    \<bar>search_denominator f (snd (rkaiser_search f rho_hat))\<bar> < 0.000000001) \<and>
   parabolic_search f 10 s = (10, s)"
  using parabolic_search_exit [of 0 f "search_init f rho_hat"]
    parabolic_search_done [of 10 f s]
  by (simp add: rkaiser_search_def pmax_def)

text \<open>
  C6: the optimizer is the optimizer of the specification. The bracket and the vertex
  with which \<open>rkaiser_search\<close> ends are those of \<open>spec_optimizer\<close>, which starts from
  \<open>x0 = 0.9 rho_hat\<close>, \<open>x2 = 1.1 rho_hat\<close> with the objective evaluated at both ends and
  performs up to 10 rounds: \<open>x1\<close> the midpoint, \<open>x_hat\<close> the vertex of the stated
  formula, the lower end replaced by \<open>(x1, y1)\<close> for \<open>x_hat > x1\<close> and the upper end
  otherwise. The other conjuncts say the same of the pieces: while \<open>p < 10\<close> the loop
  performs a round in its current state and goes on from the state the round leaves, or
  stops where the round broke;
  the bracket starts as stated; a round that does not break sets \<open>x_hat\<close> to the vertex
  and narrows by position, and a round that breaks leaves the bracket and \<open>x_hat\<close> as
  they were.
\<close>

theorem C6_bracket_and_round:
  "(let s = snd (rkaiser_search f rho_hat) in (x0 s, y0 s, x2 s, y2 s, x_hat s))
     = spec_optimizer (\<lambda>x. fst (f x)) rho_hat \<and>
   parabolic_search f p s =
     (if p < 10
      then (case search_round f s of Inl s' \<Rightarrow> (p, s') | Inr s' \<Rightarrow> parabolic_search f (p + 1) s')
      else (p, s)) \<and>
   x0 (search_init f rho_hat) = 0.9 * rho_hat \<and>
   x2 (search_init f rho_hat) = 1.1 * rho_hat \<and>
   y0 (search_init f rho_hat) = fst (f (0.9 * rho_hat)) \<and>
   y2 (search_init f rho_hat) = fst (f (1.1 * rho_hat)) \<and>
   rkaiser_search f rho_hat = parabolic_search f 0 (search_init f rho_hat) \<and>
   (let x1 = (x0 s + x2 s) / 2;
        y1 = fst (f x1);
        xh = spec_vertex (x0 s) (y0 s) x1 y1 (x2 s) (y2 s)
    in case search_round f s of
         Inl s' \<Rightarrow>
           \<bar>search_denominator f s\<bar> < 0.000000001 \<and>
           x0 s' = x0 s \<and> y0 s' = y0 s \<and> x2 s' = x2 s \<and> y2 s' = y2 s \<and> x_hat s' = x_hat s
       | Inr s' \<Rightarrow>
           \<bar>search_denominator f s\<bar> \<ge> 0.000000001 \<and>
           x_hat s' = xh \<and>
           (if xh > x1 then x0 s' = x1 \<and> y0 s' = y1 \<and> x2 s' = x2 s \<and> y2 s' = y2 s
            else x0 s' = x0 s \<and> y0 s' = y0 s \<and> x2 s' = x1 \<and> y2 s' = y1))"
proof -
  have v: "0.5 * numerator (x0 s) (y0 s) (0.5 * (x0 s + x2 s)) (fst (f (0.5 * (x0 s + x2 s)))) (x2 s) (y2 s)
             / search_denominator f s
           = spec_vertex (x0 s) (y0 s) (0.5 * (x0 s + x2 s)) (fst (f (0.5 * (x0 s + x2 s)))) (x2 s) (y2 s)"
    unfolding search_denominator_def Let_def by (rule numerator_spec)
  have h: "(x0 s + x2 s) / 2 = 0.5 * (x0 s + x2 s)" by simp
  have round: "(let x1 = (x0 s + x2 s) / 2;
        y1 = fst (f x1);
        xh = spec_vertex (x0 s) (y0 s) x1 y1 (x2 s) (y2 s)
    in case search_round f s of
         Inl s' \<Rightarrow>
           \<bar>search_denominator f s\<bar> < 0.000000001 \<and>
           x0 s' = x0 s \<and> y0 s' = y0 s \<and> x2 s' = x2 s \<and> y2 s' = y2 s \<and> x_hat s' = x_hat s
       | Inr s' \<Rightarrow>
           \<bar>search_denominator f s\<bar> \<ge> 0.000000001 \<and>
           x_hat s' = xh \<and>
           (if xh > x1 then x0 s' = x1 \<and> y0 s' = y1 \<and> x2 s' = x2 s \<and> y2 s' = y2 s
            else x0 s' = x0 s \<and> y0 s' = y0 s \<and> x2 s' = x1 \<and> y2 s' = y1))"
    unfolding Let_def h
    by (simp only: search_round_cases v) (simp add: not_less)
  have loop: "parabolic_search f p s =
     (if p < 10
      then (case search_round f s of Inl s' \<Rightarrow> (p, s') | Inr s' \<Rightarrow> parabolic_search f (p + 1) s')
      else (p, s))"
    by (subst parabolic_search.simps) (simp add: pmax_def)
  have spec: "(let s = snd (rkaiser_search f rho_hat) in (x0 s, y0 s, x2 s, y2 s, x_hat s))
     = spec_optimizer (\<lambda>x. fst (f x)) rho_hat"
    using rkaiser_search_spec [of f rho_hat] by (simp add: bracket_of_def)
  show ?thesis
    using round loop spec by (simp add: search_init_fields rkaiser_search_def mult.commute)
qed

text \<open>
  C7 (the code departs from the claim). The claim: for every \<open>m \<ge> 1\<close> and every
  \<open>beta\<close> in the accepted interval [0,1] the clamp of \<open>c2\<close> to \<open>0.999 beta\<close> makes the
  argument of the logarithm strictly positive, and the clamped estimate lies in [0,1].
  The comment of line 156 states the intent (\<^verbatim>\<open>ensure no invalid log taken\<close>), but at
  \<open>beta = 0\<close>, which line 135 accepts, the clamp gives \<open>c2 = 0\<close> and the argument is 0
  for every \<open>m\<close>: \<^verbatim>\<open>logf(0)\<close> is minus infinity, and only the final clamp brings the
  estimate back into the interval (to 0 for \<open>m = 1\<close>). The lemmas \<open>log_argument_pos\<close> and \<open>approximate_rho_range\<close> give the part of
  the claim that holds: the argument is positive for \<open>beta > 0\<close>, and the estimate is in
  [0,1] throughout.
\<close>

theorem C7_log_of_zero:
  "rkaiser_log_argument m 0 = 0 \<and>
   logf (rkaiser_log_argument m 0) = MinusInf \<and>
   rkaiser_approximate_rho 1 0 = Return (Num 0)"
proof -
  have "rkaiser_log_argument m 0 = 0"
    using coeffs_c2_pos [of m]
    by (cases "rkaiser_coeffs m") (simp add: rkaiser_log_argument_def clamp_c2_def)
  moreover have "rkaiser_approximate_rho 1 0 = Return (Num 0)"
    by (simp add: rkaiser_approximate_rho_def rkaiser_log_argument_def rkaiser_coeffs_def
          clamp_c2_def logf_def clamp_rho_def)
  ultimately show ?thesis by (simp add: logf_def)
qed

text \<open>
  C8, as stated: the internal design validates like the public exact design except for
  \<open>k \<ge> 1\<close>, so it reports an error for \<open>beta\<close> outside the open interval (0,1) and
  for \<open>dt\<close> outside [-1,1]. It accepts \<open>dt = 2\<close> and it accepts \<open>beta = 1\<close>, both of
  which the public design rejects.
\<close>

theorem C8_internal_accepts_counterexample:
  "\<not> is_Exit (design_rkaiser_filter_internal kw_unit isi_zero 2 3 (3/10) 2) \<and>
   is_Exit (design_rkaiser_filter kw_unit isi_zero 2 3 (3/10) 2) \<and>
   \<not> is_Exit (design_rkaiser_filter_internal kw_unit isi_zero 2 3 1 0) \<and>
   is_Exit (design_rkaiser_filter kw_unit isi_zero 2 3 1 0)"
proof -
  have "\<not> is_Exit (design_rkaiser_filter_internal kw_unit isi_zero 2 3 (3/10) 2)"
    by (rule internal_not_exit) simp_all
  moreover have "\<not> is_Exit (design_rkaiser_filter_internal kw_unit isi_zero 2 3 1 0)"
    by (rule internal_not_exit) simp_all
  ultimately show ?thesis by (simp add: design_rkaiser_filter_def)
qed

text \<open>
  C8, amended: the internal design ends the process exactly when \<open>k < 1\<close>, \<open>m < 1\<close> or
  \<open>beta\<close> lies outside the closed interval [0,1]; it has no check of \<open>dt\<close>.
\<close>

theorem C8_internal_validation:
  "is_Exit (design_rkaiser_filter_internal kw isi k m beta dt)
   = (k < 1 \<or> m < 1 \<or> beta < 0 \<or> beta > 1)"
proof (cases "k < 1 \<or> m < 1 \<or> beta < 0 \<or> beta > 1")
  case True
  then show ?thesis
    by (auto simp add: design_rkaiser_filter_internal_def simp del: word_less_1)
next
  case False
  then have "1 \<le> k" "1 \<le> m" "0 \<le> beta" "beta \<le> 1" by (simp_all add: not_less del: word_less_1)
  from internal_not_exit [OF this] False show ?thesis by simp
qed




text \<open>
  C10: on every input that the public exact design accepts, its outcome is the outcome
  of the internal design on the same input with the rho dropped: the same taps.
\<close>

theorem C10_public_design_is_internal:
  assumes "2 \<le> k" and "1 \<le> m" and "0 < beta" and "beta < 1" and "- 1 \<le> dt" and "dt \<le> 1"
  shows "design_rkaiser_filter kw isi k m beta dt
     = map_outcome fst (design_rkaiser_filter_internal kw isi k m beta dt)"
proof -
  have "\<not> k < 2" and "\<not> m < 1"
    using assms(1,2) by (simp_all only: not_less)
  moreover have "\<not> (beta \<le> 0 \<or> beta \<ge> 1)" and "\<not> (dt < - 1 \<or> dt > 1)"
    using assms(3-6) by simp_all
  ultimately have "design_rkaiser_filter kw isi k m beta dt =
      (case design_rkaiser_filter_internal kw isi k m beta dt of
         Exit msg c \<Rightarrow> Exit msg c
       | Non_finite \<Rightarrow> Non_finite
       | Return (h, rho) \<Rightarrow> Return h)"
    by (simp only: design_rkaiser_filter_def if_False)
  then show ?thesis
    by (cases "design_rkaiser_filter_internal kw isi k m beta dt") auto
qed

text \<open>
  C10 at \<open>k = 2\<close>, \<open>m = 3\<close>, \<open>beta = 0.3\<close>, \<open>dt = 0\<close> with the cutoff generator: both
  designs return 13 taps of value \<open>0.35 sqrt (2 / 1.5925)\<close>.
\<close>

theorem C10_public_design_is_internal_witness:
  "(2::uint) \<le> 2 \<and> (1::uint) \<le> 3 \<and> (0::real) < 3/10 \<and> (3/10::real) < 1 \<and> - 1 \<le> (0::real) \<and> (0::real) \<le> 1 \<and>
   design_rkaiser_filter kw_cutoff isi_offset 2 3 (3/10) 0
     = map_outcome fst (design_rkaiser_filter_internal kw_cutoff isi_offset 2 3 (3/10) 0) \<and>
   design_rkaiser_filter kw_cutoff isi_offset 2 3 (3/10) 0
     = Return (map (\<lambda>x. x * sqrt (2 / 1.5925)) (replicate 13 0.35))"
proof -
  have "design_rkaiser_filter kw_cutoff isi_offset 2 3 (3/10) 0
     = map_outcome fst (design_rkaiser_filter_internal kw_cutoff isi_offset 2 3 (3/10) 0)"
    by (rule C10_public_design_is_internal) simp_all
  then show ?thesis by (simp add: example_internal)
qed

end
